theory Spec2Isabelle
  imports Complex_Main
begin

section \<open>JavaScript numbers and values\<close>

text \<open>
  A JavaScript number is a finite value, one of the two infinities, or NaN. Finite values
  are taken as exact reals: rounding, overflow of finite arithmetic and the sign of zero
  are not part of this model. Every operator below follows the ECMAScript rules for the
  non-finite operands.
\<close>

datatype jsnum = Fin real | PInf | NInf | NaN

fun js_neg :: "jsnum \<Rightarrow> jsnum" where
  "js_neg (Fin a) = Fin (- a)"
| "js_neg PInf = NInf"
| "js_neg NInf = PInf"
| "js_neg NaN = NaN"

fun js_add :: "jsnum \<Rightarrow> jsnum \<Rightarrow> jsnum" where
  "js_add (Fin a) (Fin b) = Fin (a + b)"
| "js_add NaN _ = NaN"
| "js_add _ NaN = NaN"
| "js_add PInf NInf = NaN"
| "js_add NInf PInf = NaN"
| "js_add PInf _ = PInf"
| "js_add _ PInf = PInf"
| "js_add NInf _ = NInf"
| "js_add _ NInf = NInf"

definition js_sub :: "jsnum \<Rightarrow> jsnum \<Rightarrow> jsnum" where
  "js_sub a b = js_add a (js_neg b)"

fun js_mul :: "jsnum \<Rightarrow> jsnum \<Rightarrow> jsnum" where
  "js_mul (Fin a) (Fin b) = Fin (a * b)"
| "js_mul NaN _ = NaN"
| "js_mul _ NaN = NaN"
| "js_mul (Fin a) PInf = (if a = 0 then NaN else if 0 < a then PInf else NInf)"
| "js_mul (Fin a) NInf = (if a = 0 then NaN else if 0 < a then NInf else PInf)"
| "js_mul PInf (Fin b) = (if b = 0 then NaN else if 0 < b then PInf else NInf)"
| "js_mul NInf (Fin b) = (if b = 0 then NaN else if 0 < b then NInf else PInf)"
| "js_mul PInf PInf = PInf"
| "js_mul PInf NInf = NInf"
| "js_mul NInf PInf = NInf"
| "js_mul NInf NInf = PInf"

fun js_div :: "jsnum \<Rightarrow> jsnum \<Rightarrow> jsnum" where
  "js_div (Fin a) (Fin b) =
     (if b = 0 then (if a = 0 then NaN else if 0 < a then PInf else NInf)
      else Fin (a / b))"
| "js_div NaN _ = NaN"
| "js_div _ NaN = NaN"
| "js_div (Fin a) _ = Fin 0"
| "js_div PInf (Fin b) = (if 0 \<le> b then PInf else NInf)"
| "js_div NInf (Fin b) = (if 0 \<le> b then NInf else PInf)"
| "js_div _ _ = NaN"

text \<open>\<^verbatim>\<open>Math.sqrt\<close>.\<close>

fun js_sqrt :: "jsnum \<Rightarrow> jsnum" where
  "js_sqrt (Fin a) = (if a < 0 then NaN else Fin (sqrt a))"
| "js_sqrt PInf = PInf"
| "js_sqrt NInf = NaN"
| "js_sqrt NaN = NaN"

text \<open>\<^verbatim>\<open>Math.pow(x, 1.5)\<close>, the only power the program takes.\<close>

fun js_pow15 :: "jsnum \<Rightarrow> jsnum" where
  "js_pow15 (Fin a) = (if a < 0 then NaN else Fin (a powr (3 / 2)))"
| "js_pow15 PInf = PInf"
| "js_pow15 NInf = PInf"
| "js_pow15 NaN = NaN"

text \<open>The comparisons \<^verbatim>\<open><\<close>, \<^verbatim>\<open>></\<close>, \<^verbatim>\<open><=\<close>, \<^verbatim>\<open>>=\<close>: false as soon as one side is NaN.\<close>

fun js_lt :: "jsnum \<Rightarrow> jsnum \<Rightarrow> bool" where
  "js_lt (Fin a) (Fin b) = (a < b)"
| "js_lt NaN _ = False"
| "js_lt _ NaN = False"
| "js_lt PInf _ = False"
| "js_lt _ NInf = False"
| "js_lt _ _ = True"

definition js_gt :: "jsnum \<Rightarrow> jsnum \<Rightarrow> bool" where
  "js_gt a b = js_lt b a"

definition js_le :: "jsnum \<Rightarrow> jsnum \<Rightarrow> bool" where
  "js_le a b = (a \<noteq> NaN \<and> b \<noteq> NaN \<and> \<not> js_lt b a)"

definition js_ge :: "jsnum \<Rightarrow> jsnum \<Rightarrow> bool" where
  "js_ge a b = js_le b a"

text \<open>Strict equality \<^verbatim>\<open>===\<close> on numbers: NaN equals nothing.\<close>

definition js_strict_eq :: "jsnum \<Rightarrow> jsnum \<Rightarrow> bool" where
  "js_strict_eq a b = (a \<noteq> NaN \<and> a = b)"

text \<open>Truthiness of a number, as \<^verbatim>\<open>||\<close> tests it: zero and NaN are falsy.\<close>

definition js_truthy :: "jsnum \<Rightarrow> bool" where
  "js_truthy a = (a \<noteq> Fin 0 \<and> a \<noteq> NaN)"

section \<open>Vectors\<close>

text \<open>
  \<^verbatim>\<open>THREE.Vector3\<close>, with the operations of the three.js library that the program calls.
  The library mutates the receiver and returns it; here each operation returns the new
  value of the receiver.
\<close>

record vec3 =
  vx :: jsnum
  vy :: jsnum
  vz :: jsnum

definition Vector3 :: "jsnum \<Rightarrow> jsnum \<Rightarrow> jsnum \<Rightarrow> vec3" where
  "Vector3 a b c = \<lparr>vx = a, vy = b, vz = c\<rparr>"

definition subVectors :: "vec3 \<Rightarrow> vec3 \<Rightarrow> vec3" where
  "subVectors a b = Vector3 (js_sub (vx a) (vx b)) (js_sub (vy a) (vy b)) (js_sub (vz a) (vz b))"

definition add :: "vec3 \<Rightarrow> vec3 \<Rightarrow> vec3" where
  "add a b = Vector3 (js_add (vx a) (vx b)) (js_add (vy a) (vy b)) (js_add (vz a) (vz b))"

definition multiplyScalar :: "vec3 \<Rightarrow> jsnum \<Rightarrow> vec3" where
  "multiplyScalar v s = Vector3 (js_mul (vx v) s) (js_mul (vy v) s) (js_mul (vz v) s)"

definition divideScalar :: "vec3 \<Rightarrow> jsnum \<Rightarrow> vec3" where
  "divideScalar v s = multiplyScalar v (js_div (Fin 1) s)"

definition lengthSq :: "vec3 \<Rightarrow> jsnum" where
  "lengthSq v =
     js_add (js_add (js_mul (vx v) (vx v)) (js_mul (vy v) (vy v))) (js_mul (vz v) (vz v))"

definition length_vec :: "vec3 \<Rightarrow> jsnum" where
  "length_vec v = js_sqrt (lengthSq v)"

definition normalize :: "vec3 \<Rightarrow> vec3" where
  \<comment> \<open>\<^verbatim>\<open>this.divideScalar(this.length() || 1)\<close>\<close>
  "normalize v =
     divideScalar v (if js_truthy (length_vec v) then length_vec v else Fin 1)"

definition distanceTo :: "vec3 \<Rightarrow> vec3 \<Rightarrow> jsnum" where
  "distanceTo a b = js_sqrt (lengthSq (subVectors a b))"

section \<open>Physics\<close>

text \<open>
  Whatever has a position and a mass: the rocket and the planets, which
  \<^verbatim>\<open>Physics.applyGravity\<close> reads through these two fields only.
\<close>

record body =
  position :: vec3
  mass :: jsnum

text \<open>
  \<^verbatim>\<open>calculateGravityForce\<close> returns a number on one path and a \<^verbatim>\<open>THREE.Vector3\<close> on
  the other, so its result is a JavaScript value of either kind.
\<close>

datatype jsval = JNum jsnum | JVec vec3

text \<open>The conversion that \<^verbatim>\<open>/\<close> applies to its operands: an object that is not a number gives NaN.\<close>

fun ToNumber :: "jsval \<Rightarrow> jsnum" where
  "ToNumber (JNum n) = n"
| "ToNumber (JVec v) = NaN"

definition Physics_G :: jsnum where
  "Physics_G = Fin (1 / 10)"

definition calculateGravityForce :: "jsnum \<Rightarrow> jsnum \<Rightarrow> jsnum \<Rightarrow> jsval" where
  "calculateGravityForce mass1 mass2 distance =
     (if js_strict_eq distance (Fin 0) then JVec (Vector3 (Fin 0) (Fin 0) (Fin 0))
      else JNum (js_div (js_mul (js_mul Physics_G mass1) mass2) (js_mul distance distance)))"

definition applyGravity :: "'a body_scheme \<Rightarrow> 'b body_scheme \<Rightarrow> vec3" where
  "applyGravity object planet =
     (let direction = normalize (subVectors (position planet) (position object));
          distance = distanceTo (position object) (position planet);
          force = calculateGravityForce (mass object) (mass planet) distance
      in multiplyScalar direction (js_div (ToNumber force) (mass object)))"

text \<open>
  The gravity part of \<^verbatim>\<open>Game.update\<close>, multi-planet game: the acceleration of Earth, then
  \<^verbatim>\<open>totalGravity.add(gravity)\<close> for each planet of \<^verbatim>\<open>this.planets\<close>, when that list exists.
  Each call of \<^verbatim>\<open>applyGravity\<close> builds a fresh vector, so the in-place \<^verbatim>\<open>add\<close> touches
  nothing but the accumulator.
\<close>

definition update_totalGravity ::
  "'a body_scheme \<Rightarrow> 'b body_scheme \<Rightarrow> 'c body_scheme list option \<Rightarrow> vec3" where
  "update_totalGravity rocket earth planets =
     (let totalGravity = applyGravity rocket earth
      in case planets of
           None \<Rightarrow> totalGravity
         | Some ps \<Rightarrow> foldl (\<lambda>total planet. add total (applyGravity rocket planet)) totalGravity ps)"

text \<open>The same part of \<^verbatim>\<open>Game.update\<close> in the two-body game (Earth and one target planet).\<close>

definition update_totalGravity_twoBody ::
  "'a body_scheme \<Rightarrow> 'b body_scheme \<Rightarrow> 'c body_scheme \<Rightarrow> vec3" where
  "update_totalGravity_twoBody rocket earth targetPlanet =
     (let earthGravity = applyGravity rocket earth;
          targetGravity = applyGravity rocket targetPlanet
      in add earthGravity targetGravity)"

section \<open>Planets and what their methods return\<close>

record planet = body +
  name :: string
  radius :: jsnum
  difficulty :: jsnum

text \<open>
  Modelled from the spec: \<^verbatim>\<open>Planet.getAltitude\<close> of \<^verbatim>\<open>objects/Planet.js\<close>, which is not among
  the sources. The spec gives \<^verbatim>\<open>altitude(point) = |point - body.position| - body.radius\<close>.
\<close>

definition getAltitude :: "'a planet_scheme \<Rightarrow> vec3 \<Rightarrow> jsnum" where
  "getAltitude p point = js_sub (distanceTo point (position p)) (radius p)"

text \<open>What \<^verbatim>\<open>Planet.checkLanding\<close> returns: \<^verbatim>\<open>'success'\<close>, \<^verbatim>\<open>'crash'\<close>, or anything else.\<close>

datatype landingResult = Success | Crash | NoResult

text \<open>
  The game reads a planet through \<^verbatim>\<open>getAltitude(rocket.position)\<close> and
  \<^verbatim>\<open>checkLanding(rocket)\<close>. A reading is a planet together with what these two calls
  return in the tick at hand, so that the phase logic below holds for whatever the two
  methods compute.
\<close>

record reading = planet +
  getAltitude_result :: jsnum
  checkLanding_result :: landingResult

section \<open>The system-wide game\<close>

datatype phase = Launch | Space | Landing | GameOver

datatype viewMode = TwoD | ThreeD

text \<open>
  Calls into the classes that are not among the sources (\<^verbatim>\<open>Rocket.reset\<close>,
  \<^verbatim>\<open>Planet.orientRocketOnSurface\<close>) and into the level set-up are recorded in the order
  they are made.
\<close>

datatype call = RocketReset | OrientRocketOnSurface | SetupLevel nat

text \<open>
  The fields of \<^verbatim>\<open>Game\<close> that the phase logic reads or writes. \<^verbatim>\<open>currentLevel\<close> belongs to
  the two-body game, \<^verbatim>\<open>visitedPlanets\<close> and \<^verbatim>\<open>cameraLerpSpeed\<close> to the multi-planet game.
  \<^verbatim>\<open>pendingRespawns\<close> counts the callbacks handed to \<^verbatim>\<open>setTimeout\<close> that have not run yet;
  the program keeps no handle on them and never calls \<^verbatim>\<open>clearTimeout\<close>.
\<close>

record game =
  gameState :: phase
  viewMode :: viewMode
  planetaryProximityThreshold :: jsnum
  score :: jsnum
  planetsVisited :: nat
  currentLevel :: nat
  visitedPlanets :: "string set"
  cameraLerpSpeed :: jsnum
  gameOverText :: string
  gameOverDisplayed :: bool
  pendingRespawns :: nat
  calls :: "call list"

text \<open>The state the constructor leaves (\<^verbatim>\<open>createGameObjects\<close> has positioned the rocket).\<close>

definition Game_new :: game where
  "Game_new =
     \<lparr>gameState = Launch, viewMode = ThreeD, planetaryProximityThreshold = Fin 300,
      score = Fin 0, planetsVisited = 0, currentLevel = 1, visitedPlanets = {},
      cameraLerpSpeed = Fin (1 / 10), gameOverText = [], gameOverDisplayed = False,
      pendingRespawns = 0, calls = [OrientRocketOnSurface]\<rparr>"

definition Game_new_twoBody :: game where
  "Game_new_twoBody = Game_new\<lparr>calls := [OrientRocketOnSurface, SetupLevel 1]\<rparr>"

text \<open>The exceptions of the program that the model follows.\<close>

datatype error = TypeError

definition onGameOver :: "string \<Rightarrow> game \<Rightarrow> game" where
  "onGameOver message g =
     g\<lparr>gameState := GameOver, gameOverText := message, gameOverDisplayed := True\<rparr>"

subsection \<open>Multi-planet game\<close>

definition updateViewMode :: "game \<Rightarrow> jsnum \<Rightarrow> jsnum list option \<Rightarrow> game" where
  "updateViewMode g earthAltitude planetAltitudes =
     (let nearAnyPlanet = js_lt earthAltitude (planetaryProximityThreshold g);
          closestAltitude =
            (case planetAltitudes of
               None \<Rightarrow> earthAltitude
             | Some alts \<Rightarrow>
                 if nearAnyPlanet then earthAltitude
                 else foldl (\<lambda>closest a. if js_lt a closest then a else closest) earthAltitude alts);
          switchThreshold = planetaryProximityThreshold g;
          returnThreshold = js_mul (planetaryProximityThreshold g) (Fin (3 / 2));
          mode =
            (if viewMode g = TwoD \<and> js_lt closestAltitude switchThreshold then ThreeD
             else if viewMode g = ThreeD \<and> js_gt closestAltitude returnThreshold then TwoD
             else viewMode g)
      in g\<lparr>viewMode := mode,
           cameraLerpSpeed := (if mode = ThreeD then Fin (8 / 100) else Fin (5 / 100))\<rparr>)"

text \<open>The callback that \<^verbatim>\<open>onLandingSuccess\<close> hands to \<^verbatim>\<open>setTimeout(..., 3000)\<close>.\<close>

definition respawn :: "game \<Rightarrow> game" where
  "respawn g = g\<lparr>calls := calls g @ [RocketReset, OrientRocketOnSurface], gameState := Launch\<rparr>"

definition onLandingSuccess :: "'a planet_scheme \<Rightarrow> jsnum \<Rightarrow> game \<Rightarrow> game" where
  "onLandingSuccess p rocketFuel g =
     (if name p \<notin> visitedPlanets g then
        g\<lparr>planetsVisited := planetsVisited g + 1,
          visitedPlanets := insert (name p) (visitedPlanets g),
          score := js_add (js_add (score g) (js_mul (Fin 1000) (difficulty p)))
                          (js_mul rocketFuel (Fin 10)),
          pendingRespawns := pendingRespawns g + 1\<rparr>
      else g)"

text \<open>
  The dispatch on a landing result that \<^verbatim>\<open>checkGameState\<close> writes out once for Earth and
  once in the loop over the planets.
\<close>

definition dispatchLanding :: "reading \<Rightarrow> jsnum \<Rightarrow> game \<Rightarrow> game" where
  "dispatchLanding p rocketFuel g =
     (case checkLanding_result p of
        Success \<Rightarrow> onLandingSuccess p rocketFuel g
      | Crash \<Rightarrow> onGameOver ''Crashed! Landing speed too high.'' g
      | NoResult \<Rightarrow> g)"

text \<open>
  \<^verbatim>\<open>checkGameState\<close>: \<^verbatim>\<open>earth\<close> and \<^verbatim>\<open>planets\<close> are the readings of this tick,
  \<^verbatim>\<open>rocketFuel\<close> is \<^verbatim>\<open>rocket.fuel\<close> and \<^verbatim>\<open>speed\<close> is \<^verbatim>\<open>rocket.getSpeed()\<close>.
\<close>

definition checkGameState ::
  "reading \<Rightarrow> reading list option \<Rightarrow> jsnum \<Rightarrow> jsnum \<Rightarrow> game \<Rightarrow> game" where
  "checkGameState earth planets rocketFuel speed g0 =
     (let earthAltitude = getAltitude_result earth;
          g1 = (if gameState g0 = Launch \<and> js_gt earthAltitude (Fin 200)
                then g0\<lparr>gameState := Space\<rparr> else g0);
          closestPlanetAltitude =
            (case planets of
               None \<Rightarrow> PInf
             | Some ps \<Rightarrow>
                 foldl (\<lambda>closest p. if js_lt (getAltitude_result p) closest then getAltitude_result p else closest)
                   PInf ps);
          g2 = (if gameState g1 = Space \<and> js_lt closestPlanetAltitude (Fin 200)
                then g1\<lparr>gameState := Landing\<rparr> else g1);
          g3 = updateViewMode g2 earthAltitude (map_option (map getAltitude_result) planets);
          g4 = dispatchLanding earth rocketFuel g3;
          g5 = (case planets of
                  None \<Rightarrow> g4
                | Some ps \<Rightarrow> foldl (\<lambda>g p. dispatchLanding p rocketFuel g) g4 ps)
      in if js_le rocketFuel (Fin 0) \<and> js_lt speed (Fin (1 / 10)) \<and> js_gt earthAltitude (Fin 10)
         then onGameOver ''Out of fuel!'' g5 else g5)"

text \<open>
  \<^verbatim>\<open>updateCamera\<close>, as far as it can fail. In the 3d branch the \<^verbatim>\<open>switch\<close> over the phase
  assigns \<^verbatim>\<open>cameraOffset\<close> for launch, space and landing and has no case for gameOver;
  \<^verbatim>\<open>useRocketRotation\<close> is then still true, and \<^verbatim>\<open>cameraOffset.clone()\<close> on the undefined
  offset throws a TypeError. The 2d branch does not use the offset. The offsets
  themselves and the camera are outside the game record: \<^verbatim>\<open>cameraOffset\<close> is modelled by
  whether it was assigned.
\<close>

definition updateCamera :: "game \<Rightarrow> error option" where
  "updateCamera g =
     (if viewMode g = TwoD then None
      else
        let cameraOffset = (case gameState g of
                              Launch \<Rightarrow> Some ()
                            | Space \<Rightarrow> Some ()
                            | Landing \<Rightarrow> Some ()
                            | GameOver \<Rightarrow> None)
        in case cameraOffset of None \<Rightarrow> Some TypeError | Some _ \<Rightarrow> None)"

text \<open>
  \<^verbatim>\<open>update\<close>, as far as the game record goes: the exception that ends the tick, if any, and
  the state the tick leaves. Nothing happens once the game is over. Otherwise each
  asteroid field reports whether it hit the rocket (\<^verbatim>\<open>collisions\<close>, absent when
  \<^verbatim>\<open>this.asteroidFields\<close> is); then \<^verbatim>\<open>updateCamera\<close> runs, and an exception it throws leaves
  \<^verbatim>\<open>update\<close> at once, with the state as it is by then; \<^verbatim>\<open>checkGameState\<close> runs last. Thrust
  and integration act on the rocket, the HUD and the mini-map on the page; the readings
  are the values the tick ends up with.
\<close>

definition update ::
  "bool list option \<Rightarrow> reading \<Rightarrow> reading list option \<Rightarrow> jsnum \<Rightarrow> jsnum \<Rightarrow> game
     \<Rightarrow> error option \<times> game" where
  "update collisions earth planets rocketFuel speed g =
     (if gameState g = GameOver then (None, g)
      else
        let g1 = (case collisions of
                    None \<Rightarrow> g
                  | Some cs \<Rightarrow>
                      foldl (\<lambda>h collision.
                               if collision then onGameOver ''Collision with asteroid!'' h else h)
                        g cs)
        in case updateCamera g1 of
             Some e \<Rightarrow> (Some e, g1)
           | None \<Rightarrow> (None, checkGameState earth planets rocketFuel speed g1))"

text \<open>A pending callback runs; with none pending nothing happens.\<close>

definition timerFires :: "game \<Rightarrow> game" where
  "timerFires g =
     (if pendingRespawns g = 0 then g
      else respawn (g\<lparr>pendingRespawns := pendingRespawns g - 1\<rparr>))"

text \<open>
  \<^verbatim>\<open>updateViewMode\<close> run tick after tick, each tick with Earth's altitude and the planets'
  altitudes.
\<close>

definition updateViewModeTicks :: "game \<Rightarrow> (jsnum \<times> jsnum list option) list \<Rightarrow> game" where
  "updateViewModeTicks g ticks =
     foldl (\<lambda>h tick. updateViewMode h (fst tick) (snd tick)) g ticks"

subsection \<open>Two-body game\<close>

definition updateViewMode_twoBody :: "game \<Rightarrow> jsnum \<Rightarrow> jsnum \<Rightarrow> game" where
  "updateViewMode_twoBody g earthAltitude targetAltitude =
     (let nearEarth = js_lt earthAltitude (planetaryProximityThreshold g);
          nearTargetPlanet = js_lt targetAltitude (planetaryProximityThreshold g)
      in if nearEarth \<or> nearTargetPlanet then g\<lparr>viewMode := ThreeD\<rparr>
         else if gameState g = Space then g\<lparr>viewMode := TwoD\<rparr>
         else g)"

definition respawn_twoBody :: "game \<Rightarrow> game" where
  "respawn_twoBody g =
     g\<lparr>currentLevel := currentLevel g + 1,
       calls := calls g @ [RocketReset, OrientRocketOnSurface, SetupLevel (currentLevel g + 1)],
       gameState := Launch\<rparr>"

definition onLandingSuccess_twoBody :: "jsnum \<Rightarrow> game \<Rightarrow> game" where
  "onLandingSuccess_twoBody rocketFuel g =
     g\<lparr>planetsVisited := planetsVisited g + 1,
       score := js_add (js_add (score g) (js_mul (Fin 1000) (Fin (real (currentLevel g)))))
                       (js_mul rocketFuel (Fin 10)),
       pendingRespawns := pendingRespawns g + 1\<rparr>"

definition checkGameState_twoBody :: "jsnum \<Rightarrow> reading \<Rightarrow> jsnum \<Rightarrow> jsnum \<Rightarrow> game \<Rightarrow> game" where
  "checkGameState_twoBody earthAltitude target rocketFuel speed g0 =
     (let targetAltitude = getAltitude_result target;
          g1 = (if gameState g0 = Launch \<and> js_gt earthAltitude (Fin 200)
                then g0\<lparr>gameState := Space\<rparr> else g0);
          g2 = (if gameState g1 = Space \<and> js_lt targetAltitude (Fin 200)
                then g1\<lparr>gameState := Landing\<rparr> else g1);
          g3 = updateViewMode_twoBody g2 earthAltitude targetAltitude;
          g4 = (case checkLanding_result target of
                  Success \<Rightarrow> onLandingSuccess_twoBody rocketFuel g3
                | Crash \<Rightarrow> onGameOver ''Crashed! Landing speed too high.'' g3
                | NoResult \<Rightarrow> g3)
      in if js_le rocketFuel (Fin 0) \<and> js_lt speed (Fin (1 / 10)) \<and> js_gt earthAltitude (Fin 10)
         then onGameOver ''Out of fuel!'' g4 else g4)"

text \<open>
  \<^verbatim>\<open>updateCamera\<close> of the two-body game: the \<^verbatim>\<open>switch\<close> assigns \<^verbatim>\<open>cameraOffset\<close> for launch,
  space and landing only; the 2d view in space reads \<^verbatim>\<open>cameraOffset.y\<close>, which is assigned
  there, and every other case calls \<^verbatim>\<open>cameraOffset.clone()\<close>, a TypeError when the phase is
  gameOver.
\<close>

definition updateCamera_twoBody :: "game \<Rightarrow> error option" where
  "updateCamera_twoBody g =
     (let cameraOffset = (case gameState g of
                            Launch \<Rightarrow> Some ()
                          | Space \<Rightarrow> Some ()
                          | Landing \<Rightarrow> Some ()
                          | GameOver \<Rightarrow> None)
      in if viewMode g = TwoD \<and> gameState g = Space then None
         else case cameraOffset of None \<Rightarrow> Some TypeError | Some _ \<Rightarrow> None)"

text \<open>\<^verbatim>\<open>update\<close> of the two-body game, with its one optional asteroid field.\<close>

definition update_twoBody ::
  "bool option \<Rightarrow> jsnum \<Rightarrow> reading \<Rightarrow> jsnum \<Rightarrow> jsnum \<Rightarrow> game \<Rightarrow> error option \<times> game" where
  "update_twoBody collision earthAltitude target rocketFuel speed g =
     (if gameState g = GameOver then (None, g)
      else
        let g1 = (case collision of
                    Some True \<Rightarrow> onGameOver ''Collision with asteroid!'' g
                  | _ \<Rightarrow> g)
        in case updateCamera_twoBody g1 of
             Some e \<Rightarrow> (Some e, g1)
           | None \<Rightarrow> (None, checkGameState_twoBody earthAltitude target rocketFuel speed g1))"

definition timerFires_twoBody :: "game \<Rightarrow> game" where
  "timerFires_twoBody g =
     (if pendingRespawns g = 0 then g
      else respawn_twoBody (g\<lparr>pendingRespawns := pendingRespawns g - 1\<rparr>))"

section \<open>The single-planet scene\<close>

datatype sceneState = SApproaching | SLanding | SLanded | SLaunching

text \<open>
  \<^verbatim>\<open>updateGameState\<close> of \<^verbatim>\<open>src/scenes/PlanetScene.js\<close> and of the enhanced scene, which have
  the same text: \<^verbatim>\<open>altitude\<close> is \<^verbatim>\<open>planet.getAltitude(rocket.mesh.position)\<close> and
  \<^verbatim>\<open>speed\<close> is \<^verbatim>\<open>rocket.getSpeed()\<close>.
\<close>

definition updateGameState :: "sceneState \<Rightarrow> jsnum \<Rightarrow> jsnum \<Rightarrow> sceneState" where
  "updateGameState gs altitude speed =
     (if gs = SApproaching \<and> js_lt altitude (Fin 800) then SLanding
      else if gs = SLanding \<and> js_lt speed (Fin 1) \<and> js_lt altitude (Fin 40) then SLanded
      else if gs = SLanded \<and> js_gt speed (Fin 5) then SLaunching
      else if gs = SLaunching \<and> js_gt altitude (Fin 800) then SApproaching
      else gs)"

text \<open>
  The rocket. The program reaches its position as \<^verbatim>\<open>rocket.position\<close> and as
  \<^verbatim>\<open>rocket.mesh.position\<close>, the planet's likewise; they are taken to be one vector. The
  orientation is a quaternion in the program; here it is the last call that set it, with
  the direction or the target it was given.
\<close>

datatype orientation = Unoriented | SurfaceUp vec3 | LookAt vec3

record rocket = body +
  velocity :: vec3
  fuel :: jsnum
  landingGearDeployed :: bool
  orientation :: orientation

text \<open>
  Modelled from the spec: \<^verbatim>\<open>Planet.orientRocketOnSurface\<close> of \<^verbatim>\<open>objects/Planet.js\<close>, which is
  not among the sources. The spec's surface orientation has the local up equal to the
  normalised vector from the body's centre to the point.
\<close>

definition orientRocketOnSurface :: "'a planet_scheme \<Rightarrow> rocket \<Rightarrow> rocket" where
  "orientRocketOnSurface p r =
     r\<lparr>orientation := SurfaceUp (normalize (subVectors (position r) (position p)))\<rparr>"

text \<open>
  Modelled from the spec: \<^verbatim>\<open>Rocket.deployLandingGear\<close> of \<^verbatim>\<open>objects/Rocket.js\<close>, which is not
  among the sources. The spec has a boolean deployment flag with deploy and retract as its
  only transitions.
\<close>

definition deployLandingGear :: "rocket \<Rightarrow> rocket" where
  "deployLandingGear r = r\<lparr>landingGearDeployed := True\<rparr>"

text \<open>\<^verbatim>\<open>Object3D.lookAt\<close> of three.js turns the object to face the target.\<close>

definition lookAt :: "vec3 \<Rightarrow> rocket \<Rightarrow> rocket" where
  "lookAt target r = r\<lparr>orientation := LookAt target\<rparr>"

text \<open>\<^verbatim>\<open>Math.cos\<close> and \<^verbatim>\<open>Math.sin\<close>: NaN outside the finite numbers.\<close>

fun js_cos :: "jsnum \<Rightarrow> jsnum" where
  "js_cos (Fin a) = Fin (cos a)"
| "js_cos _ = NaN"

fun js_sin :: "jsnum \<Rightarrow> jsnum" where
  "js_sin (Fin a) = Fin (sin a)"
| "js_sin _ = NaN"

definition Math_PI :: jsnum where
  "Math_PI = Fin pi"

record planetScene =
  scene_planet :: planet
  scene_rocket :: rocket
  scene_gameState :: sceneState
  scene_pendingRespawns :: nat
  scene_gameOverText :: string
  scene_gameOverDisplayed :: bool

text \<open>
  \<^verbatim>\<open>transferRocketFromSolarSystem\<close> of the enhanced scene. The camera update that ends it
  acts on the camera only.
\<close>

definition transferRocketFromSolarSystem :: "rocket \<Rightarrow> planetScene \<Rightarrow> planetScene" where
  "transferRocketFromSolarSystem solarSystemRocket s =
     (let r0 = (scene_rocket s)\<lparr>fuel := fuel solarSystemRocket,
                                 velocity := velocity solarSystemRocket\<rparr>
      in if name (scene_planet s) = ''Earth'' then
           let landingAngle = js_mul Math_PI (Fin (1 / 4));
               surfaceDistance = js_add (radius (scene_planet s)) (Fin 2);
               r1 = r0\<lparr>position := Vector3 (js_mul (js_cos landingAngle) surfaceDistance)
                                           (Fin 0)
                                           (js_mul (js_sin landingAngle) surfaceDistance)\<rparr>;
               r2 = r1\<lparr>velocity := Vector3 (Fin 0) (Fin 0) (Fin 0)\<rparr>;
               r3 = orientRocketOnSurface (scene_planet s) r2;
               r4 = deployLandingGear r3
           in s\<lparr>scene_rocket := r4, scene_gameState := SLanded\<rparr>
         else
           let rocketAngle = js_mul Math_PI (Fin (1 / 4));
               approachDistance = js_add (radius (scene_planet s)) (Fin 800);
               r1 = r0\<lparr>position := Vector3 (js_mul (js_cos rocketAngle) approachDistance)
                                           (Fin 200)
                                           (js_mul (js_sin rocketAngle) approachDistance)\<rparr>;
               r2 = r1\<lparr>velocity := Vector3 (Fin 0) (Fin 0) (Fin 0)\<rparr>;
               r3 = lookAt (position (scene_planet s)) r2
           in s\<lparr>scene_rocket := r3, scene_gameState := SApproaching\<rparr>)"

text \<open>
  \<^verbatim>\<open>transferRocketFromSolarSystem\<close> of \<^verbatim>\<open>src/scenes/PlanetScene.js\<close>, which has the surface
  branch only.
\<close>

definition transferRocketFromSolarSystem_surfaceOnly :: "rocket \<Rightarrow> planetScene \<Rightarrow> planetScene" where
  "transferRocketFromSolarSystem_surfaceOnly solarSystemRocket s =
     (let r0 = (scene_rocket s)\<lparr>fuel := fuel solarSystemRocket,
                                 velocity := velocity solarSystemRocket\<rparr>;
          landingAngle = js_mul Math_PI (Fin (1 / 4));
          surfaceDistance = js_add (radius (scene_planet s)) (Fin 2);
          r1 = r0\<lparr>position := Vector3 (js_mul (js_cos landingAngle) surfaceDistance)
                                      (Fin 0)
                                      (js_mul (js_sin landingAngle) surfaceDistance)\<rparr>;
          r2 = r1\<lparr>velocity := Vector3 (Fin 0) (Fin 0) (Fin 0)\<rparr>;
          r3 = orientRocketOnSurface (scene_planet s) r2;
          r4 = deployLandingGear r3
      in s\<lparr>scene_rocket := r4, scene_gameState := SLanded\<rparr>)"

subsection \<open>Enhanced gravity\<close>

definition calculateAtmosphericDrag :: "jsnum \<Rightarrow> jsnum" where
  "calculateAtmosphericDrag altitude =
     (let maxDrag = Fin (15 / 100);
          atmosphereHeight = Fin 2400
      in if js_ge altitude atmosphereHeight then Fin 0
         else let dragFactor = js_sub (Fin 1) (js_div altitude atmosphereHeight)
              in js_mul maxDrag (js_pow15 dragFactor))"

definition applyEnhancedGravity :: "planetScene \<Rightarrow> vec3" where
  "applyEnhancedGravity s =
     (let rocketPos = position (scene_rocket s);
          planetPos = position (scene_planet s);
          altitude = getAltitude (scene_planet s) rocketPos;
          distance = distanceTo rocketPos planetPos;
          enhancedGravityRange = js_mul (radius (scene_planet s)) (Fin 6);
          strongGravityRange = js_mul (radius (scene_planet s)) (Fin 2)
      in if js_gt distance enhancedGravityRange then Vector3 (Fin 0) (Fin 0) (Fin 0)
         else
           let baseGravity = applyGravity (scene_rocket s) (scene_planet s);
               gravityMultiplier =
                 (if js_lt distance strongGravityRange then
                    let proximityFactor =
                          js_div (js_sub strongGravityRange distance) strongGravityRange
                    in js_add (Fin 1) (js_mul proximityFactor (Fin (5 / 2)))
                  else if js_lt distance enhancedGravityRange then
                    let rangeFactor =
                          js_div (js_sub enhancedGravityRange distance)
                                 (js_sub enhancedGravityRange strongGravityRange)
                    in js_add (Fin 1) (js_mul rangeFactor (Fin (8 / 10)))
                  else Fin 1);
               baseGravity' =
                 (if js_lt altitude (Fin 2400) then
                    let atmosphericDrag = calculateAtmosphericDrag altitude;
                        dragForce = multiplyScalar (velocity (scene_rocket s))
                                      (js_neg atmosphericDrag)
                    in add baseGravity dragForce
                  else baseGravity)
           in multiplyScalar baseGravity' gravityMultiplier)"

subsection \<open>Landing\<close>

text \<open>
  Modelled from the spec: \<^verbatim>\<open>Planet.checkLanding\<close> of \<^verbatim>\<open>objects/Planet.js\<close>, which is not among
  the sources. In the spec's words the classification triggers only when altitude is
  below the body's contact threshold; success requires the speed below the safe limit,
  crash is the speed above it; and an already-resolved flag per contact episode keeps a
  second evaluation from firing, cleared once altitude rises above the threshold again.
  The function returns the result and the new flag.
\<close>

definition classifyLanding ::
  "jsnum \<Rightarrow> jsnum \<Rightarrow> jsnum \<Rightarrow> jsnum \<Rightarrow> bool \<Rightarrow> landingResult \<times> bool" where
  "classifyLanding contactThreshold safeSpeed altitude speed resolved =
     (if js_lt altitude contactThreshold then
        (if resolved then (NoResult, True)
         else if js_lt speed safeSpeed then (Success, True)
         else if js_gt speed safeSpeed then (Crash, True)
         else (NoResult, False))
      else if js_gt altitude contactThreshold then (NoResult, False)
      else (NoResult, resolved))"

text \<open>\<^verbatim>\<open>onLandingSuccess\<close> of the scene hands a respawn callback to \<^verbatim>\<open>setTimeout(..., 2000)\<close>.\<close>

definition onLandingSuccess_scene :: "planetScene \<Rightarrow> planetScene" where
  "onLandingSuccess_scene s = s\<lparr>scene_pendingRespawns := scene_pendingRespawns s + 1\<rparr>"

text \<open>
  The callback itself: \<^verbatim>\<open>rocket.reset()\<close>, \<^verbatim>\<open>planet.orientRocketOnSurface(rocket)\<close>, then
  \<^verbatim>\<open>gameState = 'launching'\<close>. \<^verbatim>\<open>Rocket.reset\<close> is not among the sources and is the
  parameter \<^verbatim>\<open>reset\<close>.
\<close>

definition respawn_scene :: "(rocket \<Rightarrow> rocket) \<Rightarrow> planetScene \<Rightarrow> planetScene" where
  "respawn_scene reset s =
     s\<lparr>scene_rocket := orientRocketOnSurface (scene_planet s) (reset (scene_rocket s)),
       scene_gameState := SLaunching\<rparr>"

text \<open>A pending callback of the scene runs; with none pending nothing happens.\<close>

definition timerFires_scene :: "(rocket \<Rightarrow> rocket) \<Rightarrow> planetScene \<Rightarrow> planetScene" where
  "timerFires_scene reset s =
     (if scene_pendingRespawns s = 0 then s
      else respawn_scene reset (s\<lparr>scene_pendingRespawns := scene_pendingRespawns s - 1\<rparr>))"

definition onGameOver_scene :: "string \<Rightarrow> planetScene \<Rightarrow> planetScene" where
  "onGameOver_scene message s =
     s\<lparr>scene_gameOverText := message, scene_gameOverDisplayed := True\<rparr>"

text \<open>\<^verbatim>\<open>PlanetScene.checkLanding\<close>, given what \<^verbatim>\<open>planet.checkLanding(rocket)\<close> returned.\<close>

definition checkLanding :: "landingResult \<Rightarrow> planetScene \<Rightarrow> planetScene" where
  "checkLanding landingResult s =
     (case landingResult of
        Success \<Rightarrow> onLandingSuccess_scene s
      | Crash \<Rightarrow> onGameOver_scene ''Crashed! Landing speed too high.'' s
      | NoResult \<Rightarrow> s)"

text \<open>
  \<^verbatim>\<open>checkLanding\<close> evaluated tick after tick, each tick with the altitude and the speed of
  the rocket: the results in order, the final flag and the final scene.
\<close>

fun checkLandingTicks ::
  "jsnum \<Rightarrow> jsnum \<Rightarrow> (jsnum \<times> jsnum) list \<Rightarrow> bool \<Rightarrow> planetScene
     \<Rightarrow> landingResult list \<times> bool \<times> planetScene" where
  "checkLandingTicks contactThreshold safeSpeed [] resolved s = ([], resolved, s)"
| "checkLandingTicks contactThreshold safeSpeed ((altitude, speed) # ticks) resolved s =
     (let (result, resolved') = classifyLanding contactThreshold safeSpeed altitude speed resolved;
          s' = checkLanding result s;
          (results, final) = checkLandingTicks contactThreshold safeSpeed ticks resolved' s'
      in (result # results, final))"

section \<open>The spec's formulas\<close>

text \<open>
  The gravitation contract in the spec's words, over the reals: the force is
  \<^verbatim>\<open>G * m1 * m2 / distance^2\<close> with the program's \<^verbatim>\<open>G = 0.1\<close>, and the acceleration is the
  unit vector from the craft to the body scaled by \<^verbatim>\<open>force / craft.mass\<close>.
\<close>

type_synonym rvec = "real \<times> real \<times> real"

definition of_rvec :: "rvec \<Rightarrow> vec3" where
  "of_rvec p = (case p of (a, b, c) \<Rightarrow> Vector3 (Fin a) (Fin b) (Fin c))"


definition spec_distance :: "rvec \<Rightarrow> rvec \<Rightarrow> real" where
  "spec_distance p q =
     (case (p, q) of ((a, b, c), (a', b', c')) \<Rightarrow> sqrt ((a' - a)\<^sup>2 + (b' - b)\<^sup>2 + (c' - c)\<^sup>2))"

definition spec_unit :: "rvec \<Rightarrow> rvec \<Rightarrow> rvec" where
  "spec_unit p q =
     (case (p, q) of ((a, b, c), (a', b', c')) \<Rightarrow>
        ((a' - a) / spec_distance p q, (b' - b) / spec_distance p q, (c' - c) / spec_distance p q))"


text \<open>The vector sum of a list of accelerations.\<close>

fun spec_vector_sum :: "vec3 list \<Rightarrow> vec3" where
  "spec_vector_sum [] = Vector3 (Fin 0) (Fin 0) (Fin 0)"
| "spec_vector_sum (v # vs) = add v (spec_vector_sum vs)"

text \<open>
  The altitude of the closest body, for finite altitudes: the least of Earth's altitude
  and the altitudes of the planets.
\<close>

definition spec_closest :: "real \<Rightarrow> real list option \<Rightarrow> real" where
  "spec_closest e planetAltitudes =
     Min (set (e # (case planetAltitudes of None \<Rightarrow> [] | Some alts \<Rightarrow> alts)))"

text \<open>A tick of finite altitudes, as the numbers the program sees.\<close>

definition finite_tick :: "real \<times> real list option \<Rightarrow> jsnum \<times> jsnum list option" where
  "finite_tick tick = (Fin (fst tick), map_option (map Fin) (snd tick))"

section \<open>Example inputs\<close>

text \<open>Concrete planets, rockets and scenes at which the theorems below are instantiated.\<close>

definition example_planet :: "real \<Rightarrow> string \<Rightarrow> planet" where
  "example_planet R n =
     \<lparr>position = of_rvec (0, 0, 0), mass = Fin 1000, name = n, radius = Fin R, difficulty = Fin 1\<rparr>"

definition example_rocket :: "rvec \<Rightarrow> rocket" where
  "example_rocket p =
     \<lparr>position = of_rvec p, mass = Fin 1, velocity = of_rvec (0, 0, 0), fuel = Fin 100,
      landingGearDeployed = False, orientation = Unoriented\<rparr>"

definition example_scene :: "real \<Rightarrow> string \<Rightarrow> rvec \<Rightarrow> planetScene" where
  "example_scene R n p =
     \<lparr>scene_planet = example_planet R n, scene_rocket = example_rocket p,
      scene_gameState = SApproaching, scene_pendingRespawns = 0,
      scene_gameOverText = [], scene_gameOverDisplayed = False\<rparr>"

text \<open>A planet with the altitude and the landing result it reports in one tick.\<close>

definition example_reading :: "string \<Rightarrow> jsnum \<Rightarrow> landingResult \<Rightarrow> reading" where
  "example_reading n a r =
     \<lparr>position = of_rvec (0, 0, 0), mass = Fin 1000, name = n, radius = Fin 100,
      difficulty = Fin 3, getAltitude_result = a, checkLanding_result = r\<rparr>"

text \<open>
  A new multi-planet game after one tick in which the rocket, far from Earth with fuel
  left, lands on Mars successfully; and that game after a further tick in which an
  asteroid hits the rocket. That tick is cut short by the TypeError of \<^verbatim>\<open>updateCamera\<close>;
  the game is in the state the tick leaves.
\<close>

definition example_landed :: game where
  "example_landed =
     snd (update None (example_reading ''Earth'' (Fin 5000) NoResult)
            (Some [example_reading ''Mars'' (Fin 0) Success]) (Fin 20) (Fin 0) Game_new)"

definition example_game_over :: game where
  "example_game_over =
     snd (update (Some [True]) (example_reading ''Earth'' (Fin 5000) NoResult)
            (Some [example_reading ''Mars'' (Fin 0) NoResult]) (Fin 20) (Fin 0) example_landed)"

text \<open>
  The multi-planet game close to Mars, in the landing phase and the 3d view, and the
  two-body game in free flight in the 2d view.
\<close>

definition example_near_mars :: game where
  "example_near_mars = Game_new\<lparr>gameState := Landing\<rparr>"

definition example_in_space_2d :: game where
  "example_in_space_2d = Game_new_twoBody\<lparr>gameState := Space, viewMode := TwoD\<rparr>"

text \<open>
  A scene in state landing at the moment its planet reports a successful landing, and a
  reset of the rocket that refills the fuel and clears the velocity.
\<close>

definition example_touchdown :: planetScene where
  "example_touchdown =
     checkLanding Success ((example_scene 800 ''Mars'' (805, 0, 0))\<lparr>scene_gameState := SLanding\<rparr>)"

definition example_reset :: "rocket \<Rightarrow> rocket" where
  "example_reset r = r\<lparr>fuel := Fin 100, velocity := of_rvec (0, 0, 0)\<rparr>"

text \<open>The two-body game in free flight, in the view it starts with.\<close>

definition example_in_space :: game where
  "example_in_space = Game_new_twoBody\<lparr>gameState := Space\<rparr>"

section \<open>Verification\<close>

lemmas vec_defs = Vector3_def subVectors_def add_def multiplyScalar_def divideScalar_def
  lengthSq_def length_vec_def normalize_def distanceTo_def

subsection \<open>Gravitation\<close>

text \<open>
  C1. The claim is that at distance zero the gravitation engine returns the zero
  acceleration and produces no NaN. The code does not: at distance zero
  \<^verbatim>\<open>calculateGravityForce\<close> returns a vector where \<^verbatim>\<open>applyGravity\<close> divides a number, the
  division gives NaN, and every component of the result is NaN. The theorem evaluates
  \<^verbatim>\<open>applyGravity\<close> for a rocket of mass 1 at the centre of a planet of mass 1000.
\<close>

theorem applyGravity_zero_distance:
  "applyGravity \<lparr>position = Vector3 (Fin 0) (Fin 0) (Fin 0), mass = Fin 1\<rparr>
                \<lparr>position = Vector3 (Fin 0) (Fin 0) (Fin 0), mass = Fin 1000\<rparr>
     = Vector3 NaN NaN NaN"
  by (simp add: applyGravity_def calculateGravityForce_def vec_defs js_sub_def
        js_strict_eq_def js_truthy_def)

text \<open>The same at every finite position that the rocket and the planet share.\<close>

lemma applyGravity_same_position:
  assumes "position planet = position object"
    and "position object = Vector3 (Fin a) (Fin b) (Fin c)"
  shows "applyGravity object planet = Vector3 NaN NaN NaN"
  using assms
  by (simp add: applyGravity_def calculateGravityForce_def vec_defs js_sub_def
        js_strict_eq_def js_truthy_def)

lemma spec_distance_pos: "p \<noteq> q \<Longrightarrow> 0 < spec_distance p q"
proof -
  assume ne: "p \<noteq> q"
  obtain a b c where p: "p = (a, b, c)" by (cases p) auto
  obtain a' b' c' where q: "q = (a', b', c')" by (cases q) auto
  from ne p q have "a' - a \<noteq> 0 \<or> b' - b \<noteq> 0 \<or> c' - c \<noteq> 0" by auto
  then have "0 < (a' - a)\<^sup>2 + (b' - b)\<^sup>2 + (c' - c)\<^sup>2"
    by (metis add_pos_nonneg add_nonneg_pos zero_less_power2 zero_le_power2 add_nonneg_nonneg)
  then show ?thesis by (simp add: spec_distance_def p q)
qed

lemma distanceTo_of_rvec: "distanceTo (of_rvec p) (of_rvec q) = Fin (spec_distance p q)"
proof -
  obtain a b c where p: "p = (a, b, c)" by (cases p) auto
  obtain a' b' c' where q: "q = (a', b', c')" by (cases q) auto
  have "(a - a')\<^sup>2 = (a' - a)\<^sup>2" "(b - b')\<^sup>2 = (b' - b)\<^sup>2" "(c - c')\<^sup>2 = (c' - c)\<^sup>2"
    by (simp_all add: power2_commute)
  then show ?thesis
    by (simp add: p q of_rvec_def spec_distance_def vec_defs js_sub_def power2_eq_square
        not_less add_nonneg_nonneg)
qed

lemma normalize_of_rvec:
  assumes "p \<noteq> q"
  shows "normalize (subVectors (of_rvec q) (of_rvec p)) = of_rvec (spec_unit p q)"
proof -
  obtain a b c where p: "p = (a, b, c)" by (cases p) auto
  obtain a' b' c' where q: "q = (a', b', c')" by (cases q) auto
  have pos: "0 < spec_distance p q" using assms by (rule spec_distance_pos)
  have len: "length_vec (subVectors (of_rvec q) (of_rvec p)) = Fin (spec_distance p q)"
    by (simp add: p q of_rvec_def spec_distance_def vec_defs js_sub_def power2_eq_square
        not_less add_nonneg_nonneg)
  show ?thesis
    using pos unfolding normalize_def len
    by (simp add: js_truthy_def divideScalar_def multiplyScalar_def subVectors_def Vector3_def
        of_rvec_def spec_unit_def js_sub_def p q)
qed




lemma js_add_assoc: "js_add (js_add a b) c = js_add a (js_add b c)"
  by (cases a; cases b; cases c) simp_all

lemma js_add_zero_right: "js_add a (Fin 0) = a"
  by (cases a) simp_all

lemma add_assoc_vec: "add (add u v) w = add u (add v w)"
  by (simp add: add_def Vector3_def js_add_assoc)

lemma add_zero_vec: "add v (Vector3 (Fin 0) (Fin 0) (Fin 0)) = v"
  by (simp add: add_def Vector3_def js_add_zero_right)

lemma foldl_add_vector_sum:
  "foldl (\<lambda>total p. add total (f p)) acc ps = add acc (spec_vector_sum (map f ps))"
proof (induction ps arbitrary: acc)
  case Nil
  show ?case by (simp add: add_zero_vec)
next
  case (Cons p ps)
  show ?case by (simp add: Cons.IH add_assoc_vec)
qed

text \<open>
  C8. The total gravitational acceleration that \<^verbatim>\<open>Game.update\<close> hands to the rocket is the
  vector sum of the accelerations \<^verbatim>\<open>applyGravity(rocket, body)\<close> of the single bodies: Earth
  and every planet of the list in the multi-planet game, Earth and the target planet in
  the two-body game.
\<close>

theorem gravity_superposition:
  "update_totalGravity rocket earth planets
     = spec_vector_sum (applyGravity rocket earth
         # map (applyGravity rocket) (case planets of None \<Rightarrow> [] | Some ps \<Rightarrow> ps)) \<and>
   update_totalGravity_twoBody rocket earth targetPlanet
     = spec_vector_sum [applyGravity rocket earth, applyGravity rocket targetPlanet]"
  by (cases planets)
    (simp_all add: update_totalGravity_def update_totalGravity_twoBody_def
      foldl_add_vector_sum add_zero_vec)

subsection \<open>Enhanced gravity of the single-planet scene\<close>

lemma distanceTo_nonneg: "distanceTo a b = Fin d \<Longrightarrow> 0 \<le> d"
  unfolding distanceTo_def
  by (cases "lengthSq (subVectors a b)") (auto split: if_splits)

text \<open>
  C10. In the enhanced scene gravity is cut off: when the rocket's distance from the
  planet's centre exceeds six radii, \<^verbatim>\<open>applyEnhancedGravity\<close> returns the zero vector.
  Within two radii the base gravity (with the atmospheric drag added to it below altitude
  2400) is multiplied by \<open>1 + 2.5 * (2R - d) / 2R\<close>, a factor above 1 and at most 3.5.
\<close>

theorem enhanced_gravity_cutoff_and_amplification:
  fixes s :: planetScene and d R :: real
  defines "distance \<equiv> distanceTo (position (scene_rocket s)) (position (scene_planet s))"
  defines "altitude \<equiv> getAltitude (scene_planet s) (position (scene_rocket s))"
  defines "base \<equiv> applyGravity (scene_rocket s) (scene_planet s)"
  shows "(js_gt distance (js_mul (radius (scene_planet s)) (Fin 6))
           \<longrightarrow> applyEnhancedGravity s = Vector3 (Fin 0) (Fin 0) (Fin 0)) \<and>
         (distance = Fin d \<and> radius (scene_planet s) = Fin R \<and> d < 2 * R
           \<longrightarrow> applyEnhancedGravity s
                 = multiplyScalar
                     (if js_lt altitude (Fin 2400)
                      then add base (multiplyScalar (velocity (scene_rocket s))
                                      (js_neg (calculateAtmosphericDrag altitude)))
                      else base)
                     (Fin (1 + (2 * R - d) / (2 * R) * (5 / 2)))
               \<and> 1 < 1 + (2 * R - d) / (2 * R) * (5 / 2)
               \<and> 1 + (2 * R - d) / (2 * R) * (5 / 2) \<le> 7 / 2)"
proof (rule conjI; rule impI)
  assume "js_gt distance (js_mul (radius (scene_planet s)) (Fin 6))"
  then show "applyEnhancedGravity s = Vector3 (Fin 0) (Fin 0) (Fin 0)"
    by (simp add: applyEnhancedGravity_def distance_def Let_def)
next
  assume h: "distance = Fin d \<and> radius (scene_planet s) = Fin R \<and> d < 2 * R"
  then have d0: "0 \<le> d" unfolding distance_def by (blast intro: distanceTo_nonneg)
  from h d0 have R: "0 < R" by simp
  from h R have ng: "\<not> js_gt distance (js_mul (radius (scene_planet s)) (Fin 6))"
    by (simp add: js_gt_def)
  from h have lt: "js_lt distance (js_mul (radius (scene_planet s)) (Fin 2))"
    by (simp add: mult.commute)
  have m: "js_add (Fin 1) (js_mul (js_div (js_sub (js_mul (radius (scene_planet s)) (Fin 2)) distance)
              (js_mul (radius (scene_planet s)) (Fin 2))) (Fin (5 / 2)))
           = Fin (1 + (2 * R - d) / (2 * R) * (5 / 2))"
    using h R by (simp add: js_sub_def mult.commute)
  show "applyEnhancedGravity s
                 = multiplyScalar
                     (if js_lt altitude (Fin 2400)
                      then add base (multiplyScalar (velocity (scene_rocket s))
                                      (js_neg (calculateAtmosphericDrag altitude)))
                      else base)
                     (Fin (1 + (2 * R - d) / (2 * R) * (5 / 2)))
               \<and> 1 < 1 + (2 * R - d) / (2 * R) * (5 / 2)
               \<and> 1 + (2 * R - d) / (2 * R) * (5 / 2) \<le> 7 / 2"
  proof (intro conjI)
    show "applyEnhancedGravity s
                 = multiplyScalar
                     (if js_lt altitude (Fin 2400)
                      then add base (multiplyScalar (velocity (scene_rocket s))
                                      (js_neg (calculateAtmosphericDrag altitude)))
                      else base)
                     (Fin (1 + (2 * R - d) / (2 * R) * (5 / 2)))"
      using ng lt m
      by (simp add: applyEnhancedGravity_def Let_def distance_def [symmetric] altitude_def [symmetric]
          base_def [symmetric])
    have pf: "0 < (2 * R - d) / (2 * R)" using h R by simp
    have pf1: "(2 * R - d) / (2 * R) \<le> 1" using d0 R by (simp add: divide_le_eq)
    have lo: "1 < 1 + x * (5 / 2)" if "0 < x" for x :: real using that by simp
    have hi: "1 + x * (5 / 2) \<le> 7 / 2" if "x \<le> 1" for x :: real using that by simp
    show "1 < 1 + (2 * R - d) / (2 * R) * (5 / 2)" using pf by (rule lo)
    show "1 + (2 * R - d) / (2 * R) * (5 / 2) \<le> 7 / 2" using pf1 by (rule hi)
  qed
qed

lemma example_distance:
  "0 \<le> x \<Longrightarrow> distanceTo (position (scene_rocket (example_scene R n (x, 0, 0))))
       (position (scene_planet (example_scene R n (x, 0, 0)))) = Fin x"
  by (simp add: example_scene_def example_planet_def example_rocket_def distanceTo_of_rvec
      spec_distance_def)

theorem enhanced_gravity_cutoff_and_amplification_witness:
  "applyEnhancedGravity (example_scene 800 ''Mars'' (5000, 0, 0)) = Vector3 (Fin 0) (Fin 0) (Fin 0) \<and>
   applyEnhancedGravity (example_scene 800 ''Mars'' (1200, 0, 0))
     = multiplyScalar
         (add (applyGravity (example_rocket (1200, 0, 0)) (example_planet 800 ''Mars''))
              (multiplyScalar (of_rvec (0, 0, 0)) (js_neg (calculateAtmosphericDrag (Fin 400)))))
         (Fin (13 / 8))"
proof -
  have far: "distanceTo (position (scene_rocket (example_scene 800 ''Mars'' (5000, 0, 0))))
       (position (scene_planet (example_scene 800 ''Mars'' (5000, 0, 0)))) = Fin 5000"
    by (rule example_distance) simp
  have near: "distanceTo (position (scene_rocket (example_scene 800 ''Mars'' (1200, 0, 0))))
       (position (scene_planet (example_scene 800 ''Mars'' (1200, 0, 0)))) = Fin 1200"
    by (rule example_distance) simp
  have r: "radius (scene_planet (example_scene 800 n p)) = Fin 800" for n p
    by (simp add: example_scene_def example_planet_def)
  have a: "getAltitude (scene_planet (example_scene 800 ''Mars'' (1200, 0, 0)))
             (position (scene_rocket (example_scene 800 ''Mars'' (1200, 0, 0)))) = Fin 400"
    using near by (simp add: getAltitude_def r js_sub_def)
  show ?thesis
    using enhanced_gravity_cutoff_and_amplification [of "example_scene 800 ''Mars'' (5000, 0, 0)" 5000 800]
      enhanced_gravity_cutoff_and_amplification [of "example_scene 800 ''Mars'' (1200, 0, 0)" 1200 800]
    by (simp add: far near r a js_gt_def)
      (simp add: example_scene_def example_rocket_def)
qed

subsection \<open>The state machine of the single-planet scene\<close>

text \<open>
  \<^verbatim>\<open>updateGameState\<close> takes exactly the four transitions of the cycle: approaching to
  landing when altitude is below 800, landing to landed when speed is below 1 and altitude
  below 40, landed to launching when speed is above 5, launching to approaching when
  altitude is above 800. In every other case the state stays as it is, so a step either
  keeps the state or is one of these four pairs.
\<close>

lemma updateGameState_cycle:
  "updateGameState SApproaching a v = (if js_lt a (Fin 800) then SLanding else SApproaching) \<and>
   updateGameState SLanding a v
     = (if js_lt v (Fin 1) \<and> js_lt a (Fin 40) then SLanded else SLanding) \<and>
   updateGameState SLanded a v = (if js_gt v (Fin 5) then SLaunching else SLanded) \<and>
   updateGameState SLaunching a v = (if js_gt a (Fin 800) then SApproaching else SLaunching) \<and>
   (updateGameState gs a v = gs \<or>
    (gs, updateGameState gs a v)
      \<in> {(SApproaching, SLanding), (SLanding, SLanded), (SLanded, SLaunching),
          (SLaunching, SApproaching)})"
  by (cases gs) (simp_all add: updateGameState_def)

text \<open>
  C5 as stated fails for the scene as a whole, which writes its state in two more places.
  A new scene is approaching, and the transfer of the rocket to Earth sets it to landed:
  approaching to landed. A scene that is still in state landing when its planet reports
  a successful landing is set to launching by the respawn callback: landing to
  launching. Neither is a transition of the cycle.
\<close>

theorem scene_state_counterexample:
  "scene_gameState (example_scene 800 ''Earth'' (0, 0, 0)) = SApproaching \<and>
   scene_gameState (transferRocketFromSolarSystem (example_rocket (7, 8, 9))
                      (example_scene 800 ''Earth'' (0, 0, 0))) = SLanded \<and>
   scene_gameState (transferRocketFromSolarSystem_surfaceOnly (example_rocket (7, 8, 9))
                      (example_scene 800 ''Earth'' (0, 0, 0))) = SLanded \<and>
   scene_gameState example_touchdown = SLanding \<and>
   scene_pendingRespawns example_touchdown = 1 \<and>
   scene_gameState (timerFires_scene example_reset example_touchdown) = SLaunching"
  by (simp add: example_touchdown_def example_scene_def example_planet_def checkLanding_def
      onLandingSuccess_scene_def timerFires_scene_def respawn_scene_def
      transferRocketFromSolarSystem_def transferRocketFromSolarSystem_surfaceOnly_def Let_def)

text \<open>
  C5, as amended. \<^verbatim>\<open>updateGameState\<close> takes exactly the four transitions of the cycle
  (approaching to landing when altitude is below 800, landing to landed when speed is
  below 1 and altitude below 40, landed to launching when speed is above 5, launching to
  approaching when altitude is above 800) and otherwise leaves the state as it is. The
  scene writes its state in two more places, which are not bound to the cycle: a respawn
  callback that runs sets it to launching whatever it was, for every reset of the rocket,
  and \<^verbatim>\<open>transferRocketFromSolarSystem\<close> sets it to landed, or in the enhanced scene to
  approaching when the planet is not Earth.
\<close>

theorem scene_state_machine:
  "updateGameState SApproaching a v = (if js_lt a (Fin 800) then SLanding else SApproaching) \<and>
   updateGameState SLanding a v
     = (if js_lt v (Fin 1) \<and> js_lt a (Fin 40) then SLanded else SLanding) \<and>
   updateGameState SLanded a v = (if js_gt v (Fin 5) then SLaunching else SLanded) \<and>
   updateGameState SLaunching a v = (if js_gt a (Fin 800) then SApproaching else SLaunching) \<and>
   (updateGameState gs a v = gs \<or>
    (gs, updateGameState gs a v)
      \<in> {(SApproaching, SLanding), (SLanding, SLanded), (SLanded, SLaunching),
          (SLaunching, SApproaching)}) \<and>
   scene_gameState (timerFires_scene reset s)
     = (if scene_pendingRespawns s = 0 then scene_gameState s else SLaunching) \<and>
   scene_gameState (transferRocketFromSolarSystem src s)
     = (if name (scene_planet s) = ''Earth'' then SLanded else SApproaching) \<and>
   scene_gameState (transferRocketFromSolarSystem_surfaceOnly src s) = SLanded"
proof -
  have callback: "scene_gameState (timerFires_scene reset s)
     = (if scene_pendingRespawns s = 0 then scene_gameState s else SLaunching)"
    by (simp add: timerFires_scene_def respawn_scene_def)
  have transfer: "scene_gameState (transferRocketFromSolarSystem src s)
     = (if name (scene_planet s) = ''Earth'' then SLanded else SApproaching)"
    by (simp add: transferRocketFromSolarSystem_def Let_def)
  have surface: "scene_gameState (transferRocketFromSolarSystem_surfaceOnly src s) = SLanded"
    by (simp add: transferRocketFromSolarSystem_surfaceOnly_def Let_def)
  show ?thesis
    using updateGameState_cycle [of a v gs] callback transfer surface by simp
qed

subsection \<open>View mode\<close>

text \<open>
  The loop over the planets keeps the least altitude seen so far.
\<close>

lemma foldl_closest:
  "foldl (\<lambda>closest a. if js_lt a closest then a else closest) (Fin e) (map Fin alts)
     = Fin (Min (set (e # alts)))"
proof (induction alts arbitrary: e)
  case Nil
  show ?case by simp
next
  case (Cons a alts)
  have step: "(if js_lt (Fin a) (Fin e) then Fin a else Fin e) = Fin (min a e)"
    by (simp add: min_def)
  have "Min (set (min a e # alts)) = Min (set (e # a # alts))"
    by (cases "alts = []") (simp_all add: min.commute min.assoc)
  then show ?case by (simp only: list.map foldl_Cons step Cons.IH)
qed

lemma closest_le_earth: "spec_closest e pas \<le> e"
  by (cases pas) (auto simp: spec_closest_def intro: Min_le)

lemma updateViewMode_characterised:
  assumes T: "planetaryProximityThreshold g = Fin t" and pos: "0 < t"
  shows "viewMode (updateViewMode g (Fin e) (map_option (map Fin) pas))
           = (if spec_closest e pas < t then ThreeD
              else if 3 / 2 * t < spec_closest e pas then TwoD
              else viewMode g)"
proof (cases pas)
  case None
  then show ?thesis
    using T pos by (cases "viewMode g") (auto simp: updateViewMode_def spec_closest_def js_gt_def)
next
  case (Some alts)
  show ?thesis
  proof (cases "e < t")
    case True
    with closest_le_earth [of e pas] have "spec_closest e pas < t" by simp
    with True pos show ?thesis
      using T Some by (cases "viewMode g") (auto simp: updateViewMode_def js_gt_def)
  next
    case False
    have c: "foldl (\<lambda>closest a. if js_lt a closest then a else closest) (Fin e) (map Fin alts)
               = Fin (spec_closest e pas)"
      by (simp only: foldl_closest spec_closest_def Some option.case)
    show ?thesis
      using T False pos
      by (cases "viewMode g") (auto simp: updateViewMode_def Some c js_gt_def Let_def)
  qed
qed

lemma updateViewMode_threshold:
  "planetaryProximityThreshold (updateViewMode g e pas) = planetaryProximityThreshold g"
  by (simp add: updateViewMode_def Let_def)

lemma updateViewModeTicks_Cons:
  "updateViewModeTicks g (finite_tick tick # ticks)
     = updateViewModeTicks (updateViewMode g (Fin (fst tick)) (map_option (map Fin) (snd tick))) ticks"
  by (simp add: updateViewModeTicks_def finite_tick_def)

lemma updateViewModeTicks_in_band:
  assumes "planetaryProximityThreshold g = Fin t" and "0 < t"
    and "\<forall>tick \<in> set ticks. t \<le> spec_closest (fst tick) (snd tick)
                              \<and> spec_closest (fst tick) (snd tick) \<le> 3 / 2 * t"
  shows "viewMode (updateViewModeTicks g (map finite_tick ticks)) = viewMode g"
  using assms
proof (induction ticks arbitrary: g)
  case Nil
  show ?case by (simp add: updateViewModeTicks_def)
next
  case (Cons tick ticks)
  let ?g = "updateViewMode g (Fin (fst tick)) (map_option (map Fin) (snd tick))"
  have band: "t \<le> spec_closest (fst tick) (snd tick)"
             "spec_closest (fst tick) (snd tick) \<le> 3 / 2 * t"
    using Cons.prems(3) by simp_all
  have same: "viewMode ?g = viewMode g"
    using updateViewMode_characterised [OF Cons.prems(1,2), of "fst tick" "snd tick"] band
    by simp
  have thr: "planetaryProximityThreshold ?g = Fin t"
    by (simp add: updateViewMode_threshold Cons.prems(1))
  have rest: "\<forall>tick \<in> set ticks. t \<le> spec_closest (fst tick) (snd tick)
                              \<and> spec_closest (fst tick) (snd tick) \<le> 3 / 2 * t"
    using Cons.prems(3) by simp
  have "viewMode (updateViewModeTicks ?g (map finite_tick ticks)) = viewMode ?g"
    by (rule Cons.IH [OF thr Cons.prems(2) rest])
  then show ?case by (simp only: list.map updateViewModeTicks_Cons same)
qed

lemma updateViewMode_twoBody_characterised:
  assumes "planetaryProximityThreshold g = Fin t"
  shows "viewMode (updateViewMode_twoBody g (Fin e) (Fin a))
           = (if min e a < t then ThreeD else if gameState g = Space then TwoD else viewMode g)"
  using assms by (auto simp: updateViewMode_twoBody_def min_def)

lemma spec_closest_fold:
  "spec_closest e pas = fold min (case pas of None \<Rightarrow> [] | Some alts \<Rightarrow> alts) e"
  unfolding spec_closest_def by (rule Min.set_eq_fold)

text \<open>
  C3, as amended. In the multi-planet game the view mode obeys hysteresis with threshold
  \<open>T\<close> (300 in the program): after \<^verbatim>\<open>updateViewMode\<close> the mode is threeD whenever the closest
  body's altitude is below \<open>T\<close>, it is twoD whenever that altitude is above \<open>1.5 T\<close>, and
  otherwise it is what it was; so the mode goes back to twoD only above \<open>1.5 T\<close>, and over
  any run of ticks whose closest altitudes stay within the band from \<open>T\<close> to \<open>1.5 T\<close> the
  mode does not change at all. In the two-body game there is no return threshold: the
  mode is threeD whenever Earth or the target is closer than \<open>T\<close>, and otherwise it is set
  to twoD when the phase is space and left alone in the other phases.
\<close>

theorem view_mode_switching:
  fixes t e a :: real
  assumes "planetaryProximityThreshold g = Fin t" and "0 < t"
  shows "viewMode (updateViewMode g (Fin e) (map_option (map Fin) pas))
           = (if spec_closest e pas < t then ThreeD
              else if 3 / 2 * t < spec_closest e pas then TwoD
              else viewMode g) \<and>
         ((\<forall>tick \<in> set ticks. t \<le> spec_closest (fst tick) (snd tick)
                              \<and> spec_closest (fst tick) (snd tick) \<le> 3 / 2 * t)
            \<longrightarrow> viewMode (updateViewModeTicks g (map finite_tick ticks)) = viewMode g) \<and>
         viewMode (updateViewMode_twoBody g (Fin e) (Fin a))
           = (if min e a < t then ThreeD else if gameState g = Space then TwoD else viewMode g)"
  using updateViewMode_characterised [OF assms] updateViewModeTicks_in_band [OF assms]
    updateViewMode_twoBody_characterised [OF assms(1)]
  by blast

theorem view_mode_switching_witness:
  "viewMode (updateViewMode (Game_new\<lparr>viewMode := TwoD\<rparr>) (Fin 500) (Some [Fin 250, Fin 700]))
     = ThreeD \<and>
   viewMode (updateViewModeTicks (Game_new\<lparr>viewMode := TwoD\<rparr>)
               (map finite_tick [(350, Some [400]), (320, None), (440, Some [1000, 301])]))
     = TwoD \<and>
   viewMode (updateViewMode_twoBody (Game_new\<lparr>viewMode := TwoD\<rparr>) (Fin 500) (Fin 250)) = ThreeD"
  using view_mode_switching [of "Game_new\<lparr>viewMode := TwoD\<rparr>" 300 500 "Some [250, 700]"
      "[(350, Some [400]), (320, None), (440, Some [1000, 301])]" 250]
  by (simp add: Game_new_def spec_closest_fold)

text \<open>
  C3 as stated fails in the two-body game: in free flight with the view in threeD, Earth
  at altitude 350 and the target at 400, \<^verbatim>\<open>updateViewMode\<close> switches to twoD although the
  closest altitude, 350, does not exceed 450.
\<close>

theorem view_mode_twoBody_counterexample:
  "viewMode example_in_space = ThreeD \<and>
   viewMode (updateViewMode_twoBody example_in_space (Fin 350) (Fin 400)) = TwoD \<and>
   \<not> js_gt (Fin 350) (js_mul (planetaryProximityThreshold example_in_space) (Fin (3 / 2)))"
  by (simp add: example_in_space_def Game_new_twoBody_def Game_new_def
      updateViewMode_twoBody_def js_gt_def)

subsection \<open>Fuel exhaustion\<close>

text \<open>
  Where \<^verbatim>\<open>checkGameState\<close> runs, the out-of-fuel test is its last statement: with fuel at
  most 0, speed below 0.1 and altitude above Earth greater than 10 it ends with the phase
  gameOver and the message \<^verbatim>\<open>Out of fuel!\<close>, whatever the landing results of the tick.
\<close>

lemma checkGameState_out_of_fuel:
  assumes "js_le rocketFuel (Fin 0)" and "js_lt speed (Fin (1 / 10))"
    and "js_gt earthAltitude (Fin 10)" and "getAltitude_result earth = earthAltitude"
  shows "gameState (checkGameState earth planets rocketFuel speed g) = GameOver \<and>
         gameOverText (checkGameState earth planets rocketFuel speed g) = ''Out of fuel!'' \<and>
         gameState (checkGameState_twoBody earthAltitude target rocketFuel speed g) = GameOver \<and>
         gameOverText (checkGameState_twoBody earthAltitude target rocketFuel speed g)
           = ''Out of fuel!''"
  using assms
  by (simp add: checkGameState_def checkGameState_twoBody_def Let_def onGameOver_def)

text \<open>
  A tick that starts with the game not over and is not cut short by an exception reaches
  \<^verbatim>\<open>checkGameState\<close>, and then ends out of fuel under the same conditions.
\<close>

lemma update_out_of_fuel:
  assumes "js_le rocketFuel (Fin 0)" and "js_lt speed (Fin (1 / 10))"
    and "js_gt earthAltitude (Fin 10)" and "getAltitude_result earth = earthAltitude"
    and "gameState g \<noteq> GameOver"
  shows "fst (update collisions earth planets rocketFuel speed g) = None \<Longrightarrow>
           gameState (snd (update collisions earth planets rocketFuel speed g)) = GameOver \<and>
           gameOverText (snd (update collisions earth planets rocketFuel speed g))
             = ''Out of fuel!''"
    and "fst (update_twoBody collision earthAltitude target rocketFuel speed g) = None \<Longrightarrow>
           gameState (snd (update_twoBody collision earthAltitude target rocketFuel speed g))
             = GameOver \<and>
           gameOverText (snd (update_twoBody collision earthAltitude target rocketFuel speed g))
             = ''Out of fuel!''"
  using checkGameState_out_of_fuel [OF assms(1-4)] assms(5)
  by (auto simp: update_def update_twoBody_def Let_def split: option.splits)

text \<open>A collision leaves the phase gameOver, whatever else the asteroid fields report.\<close>

lemma collisions_game_over:
  "gameState h = GameOver \<Longrightarrow>
   gameState (foldl (\<lambda>h collision.
                if collision then onGameOver ''Collision with asteroid!'' h else h) h cs) = GameOver"
  by (induction cs arbitrary: h) (simp_all add: onGameOver_def)

lemma collisions_viewMode:
  "viewMode (foldl (\<lambda>h collision.
                if collision then onGameOver ''Collision with asteroid!'' h else h) h cs) = viewMode h"
  by (induction cs arbitrary: h) (simp_all add: onGameOver_def)

text \<open>
  In the 3d view a tick in which the first asteroid field hits the rocket ends in a
  TypeError before \<^verbatim>\<open>checkGameState\<close>.
\<close>

lemma update_collision_throws:
  assumes "gameState g \<noteq> GameOver" and "viewMode g = ThreeD"
  shows "fst (update (Some (True # cs)) earth planets rocketFuel speed g) = Some TypeError"
  using assms
  by (simp add: update_def updateCamera_def collisions_game_over collisions_viewMode
      onGameOver_def)

text \<open>
  C6. The claim is that every tick with fuel at most 0, speed below 0.1 and altitude above
  Earth greater than 10 ends in gameOver with the out-of-fuel reason. The code does not
  get there in a tick with an asteroid collision: the collision sets the phase gameOver,
  \<^verbatim>\<open>updateCamera\<close> has no camera offset for that phase and throws, and \<^verbatim>\<open>checkGameState\<close> with
  its out-of-fuel test never runs. The theorem evaluates such a tick with fuel 0, speed 0
  and Earth at altitude 5000, in the multi-planet game near Mars in the 3d view and in the
  two-body game in free flight: the tick ends in a TypeError and leaves the message
  \<^verbatim>\<open>Collision with asteroid!\<close>.
\<close>

theorem out_of_fuel_collision_tick:
  "update (Some [True]) (example_reading ''Earth'' (Fin 5000) NoResult)
       (Some [example_reading ''Mars'' (Fin 150) NoResult]) (Fin 0) (Fin 0) example_near_mars
     = (Some TypeError, onGameOver ''Collision with asteroid!'' example_near_mars) \<and>
   update_twoBody (Some True) (Fin 5000) (example_reading ''Mars'' (Fin 3000) NoResult)
       (Fin 0) (Fin 0) example_in_space_2d
     = (Some TypeError, onGameOver ''Collision with asteroid!'' example_in_space_2d) \<and>
   gameOverText (onGameOver ''Collision with asteroid!'' example_near_mars)
     = ''Collision with asteroid!'' \<and>
   gameOverText (onGameOver ''Collision with asteroid!'' example_in_space_2d)
     = ''Collision with asteroid!''"
  by (simp add: update_def update_twoBody_def updateCamera_def updateCamera_twoBody_def
      example_near_mars_def example_in_space_2d_def Game_new_def Game_new_twoBody_def
      onGameOver_def)

text \<open>
  The same tick of the multi-planet game in the 2d view, where \<^verbatim>\<open>updateCamera\<close> does not
  throw, ends out of fuel.
\<close>

lemma out_of_fuel_collision_tick_2d:
  "fst (update (Some [True]) (example_reading ''Earth'' (Fin 5000) NoResult)
       (Some [example_reading ''Mars'' (Fin 3000) NoResult]) (Fin 0) (Fin 0)
       (Game_new\<lparr>gameState := Space, viewMode := TwoD\<rparr>)) = None \<and>
   gameOverText (snd (update (Some [True]) (example_reading ''Earth'' (Fin 5000) NoResult)
       (Some [example_reading ''Mars'' (Fin 3000) NoResult]) (Fin 0) (Fin 0)
       (Game_new\<lparr>gameState := Space, viewMode := TwoD\<rparr>))) = ''Out of fuel!''"
  by (simp add: update_def updateCamera_def checkGameState_def Let_def onGameOver_def
      example_reading_def Game_new_def js_le_def js_gt_def)

subsection \<open>The deferred respawn\<close>

text \<open>
  C2 as stated fails: a successful landing schedules the respawn, an asteroid then ends
  the game, and when the callback runs the phase goes from gameOver back to launch and the
  rocket is reset and put back on Earth.
\<close>

theorem respawn_after_game_over_counterexample:
  "pendingRespawns example_landed = 1 \<and>
   gameState example_game_over = GameOver \<and>
   pendingRespawns example_game_over = 1 \<and>
   gameState (timerFires example_game_over) = Launch \<and>
   calls (timerFires example_game_over) = calls example_game_over @ [RocketReset, OrientRocketOnSurface]"
  by (simp add: example_game_over_def example_landed_def update_def updateCamera_def checkGameState_def
      updateViewMode_def dispatchLanding_def onLandingSuccess_def onGameOver_def
      example_reading_def Game_new_def timerFires_def respawn_def js_gt_def js_le_def Let_def)

text \<open>
  C2, as amended. The respawn callback is unconditional: whenever a pending callback
  runs, in whatever phase (gameOver included), the rocket is reset and placed on Earth
  again and the phase becomes launch; in the two-body game the level is also advanced and
  set up.
\<close>

theorem respawn_unconditional:
  assumes "0 < pendingRespawns g"
  shows "gameState (timerFires g) = Launch \<and>
         calls (timerFires g) = calls g @ [RocketReset, OrientRocketOnSurface] \<and>
         gameState (timerFires_twoBody g) = Launch \<and>
         calls (timerFires_twoBody g)
           = calls g @ [RocketReset, OrientRocketOnSurface, SetupLevel (currentLevel g + 1)] \<and>
         currentLevel (timerFires_twoBody g) = currentLevel g + 1"
  using assms
  by (simp add: timerFires_def respawn_def timerFires_twoBody_def respawn_twoBody_def)

theorem respawn_unconditional_witness:
  "gameState example_game_over = GameOver \<and>
   gameState (timerFires example_game_over) = Launch \<and>
   gameState (timerFires_twoBody example_game_over) = Launch"
proof -
  have p: "pendingRespawns example_game_over = 1" and g: "gameState example_game_over = GameOver"
    by (simp_all add: example_game_over_def example_landed_def update_def updateCamera_def checkGameState_def
      updateViewMode_def dispatchLanding_def onLandingSuccess_def onGameOver_def
      example_reading_def Game_new_def js_gt_def js_le_def Let_def)
  show ?thesis
    using respawn_unconditional [of example_game_over] p g by simp
qed

subsection \<open>Landing classification\<close>

lemma js_lt_not_gt: "js_lt a b \<Longrightarrow> \<not> js_gt a b"
  unfolding js_gt_def by (cases a; cases b) auto

lemma classifyLanding_fires:
  "classifyLanding thr safe a v r = (res, r') \<Longrightarrow> res \<noteq> NoResult \<Longrightarrow> r' \<and> \<not> r \<and> js_lt a thr"
  by (auto simp: classifyLanding_def split: if_splits)

lemma classifyLanding_resolved:
  "\<not> js_gt a thr \<Longrightarrow> classifyLanding thr safe a v True = (NoResult, True)"
  by (simp add: classifyLanding_def)

lemma checkLanding_pending:
  "scene_pendingRespawns (checkLanding res s)
     = scene_pendingRespawns s + (if res = Success then 1 else 0)"
  by (cases res) (simp_all add: checkLanding_def onLandingSuccess_scene_def onGameOver_scene_def)

lemma resolved_silent:
  assumes "\<forall>tick \<in> set ticks. \<not> js_gt (fst tick) thr"
  shows "checkLandingTicks thr safe ticks True s = (replicate (length ticks) NoResult, True, s)"
  using assms
proof (induction ticks arbitrary: s)
  case Nil
  show ?case by simp
next
  case (Cons tick ticks)
  obtain a v where tick: "tick = (a, v)" by (cases tick)
  from Cons.prems have a: "\<not> js_gt a thr" and rest: "\<forall>tick \<in> set ticks. \<not> js_gt (fst tick) thr"
    by (simp_all add: tick)
  show ?case
    by (simp add: tick classifyLanding_resolved [OF a] checkLanding_def Cons.IH [OF rest])
qed

lemma fires_at_most_once:
  assumes "\<forall>tick \<in> set ticks. js_lt (fst tick) thr"
  shows "length (filter (\<lambda>res. res \<noteq> NoResult) (fst (checkLandingTicks thr safe ticks r s))) \<le> 1 \<and>
         scene_pendingRespawns (snd (snd (checkLandingTicks thr safe ticks r s)))
           \<le> scene_pendingRespawns s + 1"
  using assms
proof (induction ticks arbitrary: r s)
  case Nil
  show ?case by simp
next
  case (Cons tick ticks)
  obtain a v where tick: "tick = (a, v)" by (cases tick)
  obtain res r' where c: "classifyLanding thr safe a v r = (res, r')"
    by (cases "classifyLanding thr safe a v r")
  from Cons.prems have rest: "\<forall>tick \<in> set ticks. js_lt (fst tick) thr" by simp
  then have quiet: "\<forall>tick \<in> set ticks. \<not> js_gt (fst tick) thr"
    by (simp add: js_lt_not_gt)
  show ?case
  proof (cases "res = NoResult")
    case True
    have s: "checkLanding NoResult s = s" by (simp add: checkLanding_def)
    show ?thesis
      using Cons.IH [OF rest, of r' s] True
      by (simp add: tick c s split_beta)
  next
    case False
    with c have r': "r'" by (auto dest: classifyLanding_fires)
    have p: "scene_pendingRespawns (checkLanding res s) \<le> scene_pendingRespawns s + 1"
      by (simp add: checkLanding_pending)
    show ?thesis
      using False r' p
      by (simp add: tick c resolved_silent [OF quiet] split_beta)
  qed
qed

text \<open>
  C4. Landing classification fires at most once per contact episode. Over any run of
  ticks whose altitudes all stay below the contact threshold, at most one evaluation
  returns success or crash, and \<^verbatim>\<open>PlanetScene.checkLanding\<close> schedules at most one respawn.
  Once the episode is resolved, every evaluation returns nothing and changes nothing for
  as long as altitude does not rise above the threshold. An evaluation that does
  return success or crash was made with the flag clear and altitude below the threshold,
  and it sets the flag.
\<close>

theorem landing_fires_once_per_episode:
  "((\<forall>tick \<in> set ticks. js_lt (fst tick) thr) \<longrightarrow>
      length (filter (\<lambda>res. res \<noteq> NoResult) (fst (checkLandingTicks thr safe ticks r s))) \<le> 1 \<and>
      scene_pendingRespawns (snd (snd (checkLandingTicks thr safe ticks r s)))
        \<le> scene_pendingRespawns s + 1) \<and>
   ((\<forall>tick \<in> set ticks. \<not> js_gt (fst tick) thr) \<longrightarrow>
      checkLandingTicks thr safe ticks True s = (replicate (length ticks) NoResult, True, s)) \<and>
   (fst (classifyLanding thr safe a v r) \<noteq> NoResult \<longrightarrow>
      snd (classifyLanding thr safe a v r) \<and> \<not> r \<and> js_lt a thr)"
proof (intro conjI impI)
  assume h: "\<forall>tick \<in> set ticks. js_lt (fst tick) thr"
  show "length (filter (\<lambda>res. res \<noteq> NoResult) (fst (checkLandingTicks thr safe ticks r s))) \<le> 1"
    using fires_at_most_once [OF h] by blast
  show "scene_pendingRespawns (snd (snd (checkLandingTicks thr safe ticks r s)))
        \<le> scene_pendingRespawns s + 1"
    using fires_at_most_once [OF h] by blast
next
  assume "\<forall>tick \<in> set ticks. \<not> js_gt (fst tick) thr"
  then show "checkLandingTicks thr safe ticks True s = (replicate (length ticks) NoResult, True, s)"
    by (rule resolved_silent)
next
  assume "fst (classifyLanding thr safe a v r) \<noteq> NoResult"
  then show "snd (classifyLanding thr safe a v r)" "\<not> r" "js_lt a thr"
    using classifyLanding_fires [of thr safe a v r] by (auto simp: prod_eq_iff)
qed

theorem landing_fires_once_per_episode_witness:
  "fst (checkLandingTicks (Fin 5) (Fin 2) [(Fin 3, Fin 1), (Fin 2, Fin 0), (Fin 0, Fin 0)] False
          (example_scene 800 ''Mars'' (0, 0, 0)))
     = [Success, NoResult, NoResult] \<and>
   length (filter (\<lambda>res. res \<noteq> NoResult)
     (fst (checkLandingTicks (Fin 5) (Fin 2) [(Fin 3, Fin 1), (Fin 2, Fin 0), (Fin 0, Fin 0)] False
          (example_scene 800 ''Mars'' (0, 0, 0))))) \<le> 1 \<and>
   checkLandingTicks (Fin 5) (Fin 2) [(Fin 2, Fin 0), (Fin 5, Fin 9)] True
          (example_scene 800 ''Mars'' (0, 0, 0))
     = ([NoResult, NoResult], True, example_scene 800 ''Mars'' (0, 0, 0))"
  using landing_fires_once_per_episode [of "[(Fin 3, Fin 1), (Fin 2, Fin 0), (Fin 0, Fin 0)]"
      "Fin 5" "Fin 2" False "example_scene 800 ''Mars'' (0, 0, 0)" "Fin 3" "Fin 1"]
    landing_fires_once_per_episode [of "[(Fin 2, Fin 0), (Fin 5, Fin 9)]"
      "Fin 5" "Fin 2" False "example_scene 800 ''Mars'' (0, 0, 0)" "Fin 3" "Fin 1"]
  by (simp add: classifyLanding_def checkLanding_def js_gt_def)

subsection \<open>Scene transfer\<close>

lemma ring_distance:
  fixes D h \<theta> :: real
  shows "spec_distance (cos \<theta> * D, h, sin \<theta> * D) (0, 0, 0) = sqrt (D\<^sup>2 + h\<^sup>2)"
proof -
  have "(cos \<theta> * D)\<^sup>2 + (sin \<theta> * D)\<^sup>2 = D\<^sup>2 * ((cos \<theta>)\<^sup>2 + (sin \<theta>)\<^sup>2)"
    by (simp only: power_mult_distrib distrib_left mult.commute)
  then have "(cos \<theta> * D)\<^sup>2 + (sin \<theta> * D)\<^sup>2 = D\<^sup>2" by simp
  then have "(cos \<theta> * D)\<^sup>2 + h\<^sup>2 + (sin \<theta> * D)\<^sup>2 = D\<^sup>2 + h\<^sup>2" by simp
  then show ?thesis by (simp add: spec_distance_def)
qed

lemma ring_altitude:
  assumes "position p = of_rvec (0, 0, 0)" and "radius p = Fin R"
  shows "getAltitude p (Vector3 (js_mul (js_cos (js_mul Math_PI (Fin (1 / 4)))) (js_add (Fin R) (Fin k)))
                               (Fin h)
                               (js_mul (js_sin (js_mul Math_PI (Fin (1 / 4)))) (js_add (Fin R) (Fin k))))
           = Fin (sqrt ((R + k)\<^sup>2 + h\<^sup>2) - R)"
proof -
  have v: "Vector3 (js_mul (js_cos (js_mul Math_PI (Fin (1 / 4)))) (js_add (Fin R) (Fin k)))
                               (Fin h)
                               (js_mul (js_sin (js_mul Math_PI (Fin (1 / 4)))) (js_add (Fin R) (Fin k)))
            = of_rvec (cos (pi * (1 / 4)) * (R + k), h, sin (pi * (1 / 4)) * (R + k))"
    by (simp add: of_rvec_def Math_PI_def)
  show ?thesis
    unfolding v getAltitude_def assms distanceTo_of_rvec ring_distance
    by (simp add: js_sub_def)
qed

lemma surface_up:
  assumes "position p = of_rvec (0, 0, 0)" and "0 < D"
  shows "normalize (subVectors (of_rvec (cos \<theta> * D, 0, sin \<theta> * D)) (position p))
           = of_rvec (cos \<theta>, 0, sin \<theta>)"
proof -
  have ne: "(0, 0, 0) \<noteq> (cos \<theta> * D, 0 :: real, sin \<theta> * D)"
  proof
    assume "(0, 0, 0) = (cos \<theta> * D, 0 :: real, sin \<theta> * D)"
    with assms(2) have "cos \<theta> = 0" "sin \<theta> = 0" by simp_all
    then show False using sin_cos_squared_add [of \<theta>] by simp
  qed
  have d: "spec_distance (0, 0, 0) (cos \<theta> * D, 0, sin \<theta> * D) = D"
  proof -
    have "(cos \<theta> * D)\<^sup>2 + (sin \<theta> * D)\<^sup>2 = D\<^sup>2 * ((cos \<theta>)\<^sup>2 + (sin \<theta>)\<^sup>2)"
      by (simp only: power_mult_distrib distrib_left mult.commute)
    then have "(cos \<theta> * D)\<^sup>2 + (sin \<theta> * D)\<^sup>2 = D\<^sup>2" by simp
    then show ?thesis using assms(2) by (simp add: spec_distance_def)
  qed
  show ?thesis
    unfolding assms(1) normalize_of_rvec [OF ne]
    using assms(2) by (simp add: spec_unit_def d)
qed

text \<open>
  C9, as amended. After \<^verbatim>\<open>transferRocketFromSolarSystem\<close> the scene's rocket has the fuel of
  the source rocket and zero velocity (the planet sits at the origin of its scene, with a
  finite radius \<open>R \<ge> 0\<close>). In the enhanced scene, when the planet is Earth the rocket is
  in the surface landing pose: altitude 2, oriented along the local vertical, gear
  deployed, state landed; otherwise it is in the approach pose: altitude
  \<open>sqrt ((R + 800)\<^sup>2 + 200\<^sup>2) - R\<close>, which is more than 800, turned towards the planet,
  state approaching. In \<^verbatim>\<open>src/scenes/PlanetScene.js\<close> the rocket is in the surface
  landing pose for every planet.
\<close>

theorem transfer_pose:
  fixes R :: real
  assumes "position (scene_planet s) = of_rvec (0, 0, 0)"
    and "radius (scene_planet s) = Fin R" and "0 \<le> R"
  shows "fuel (scene_rocket (transferRocketFromSolarSystem src s)) = fuel src \<and>
         velocity (scene_rocket (transferRocketFromSolarSystem src s))
           = Vector3 (Fin 0) (Fin 0) (Fin 0) \<and>
         (name (scene_planet s) = ''Earth'' \<longrightarrow>
            scene_gameState (transferRocketFromSolarSystem src s) = SLanded \<and>
            landingGearDeployed (scene_rocket (transferRocketFromSolarSystem src s)) \<and>
            orientation (scene_rocket (transferRocketFromSolarSystem src s))
              = SurfaceUp (of_rvec (cos (pi / 4), 0, sin (pi / 4))) \<and>
            getAltitude (scene_planet s)
              (position (scene_rocket (transferRocketFromSolarSystem src s))) = Fin 2) \<and>
         (name (scene_planet s) \<noteq> ''Earth'' \<longrightarrow>
            scene_gameState (transferRocketFromSolarSystem src s) = SApproaching \<and>
            orientation (scene_rocket (transferRocketFromSolarSystem src s))
              = LookAt (position (scene_planet s)) \<and>
            getAltitude (scene_planet s)
              (position (scene_rocket (transferRocketFromSolarSystem src s)))
              = Fin (sqrt ((R + 800)\<^sup>2 + 200\<^sup>2) - R) \<and>
            800 < sqrt ((R + 800)\<^sup>2 + 200\<^sup>2) - R) \<and>
         fuel (scene_rocket (transferRocketFromSolarSystem_surfaceOnly src s)) = fuel src \<and>
         velocity (scene_rocket (transferRocketFromSolarSystem_surfaceOnly src s))
           = Vector3 (Fin 0) (Fin 0) (Fin 0) \<and>
         scene_gameState (transferRocketFromSolarSystem_surfaceOnly src s) = SLanded \<and>
         landingGearDeployed (scene_rocket (transferRocketFromSolarSystem_surfaceOnly src s)) \<and>
         orientation (scene_rocket (transferRocketFromSolarSystem_surfaceOnly src s))
           = SurfaceUp (of_rvec (cos (pi / 4), 0, sin (pi / 4))) \<and>
         getAltitude (scene_planet s)
           (position (scene_rocket (transferRocketFromSolarSystem_surfaceOnly src s))) = Fin 2"
proof -
  let ?surface = "Vector3 (js_mul (js_cos (js_mul Math_PI (Fin (1 / 4)))) (js_add (Fin R) (Fin 2)))
                          (Fin 0)
                          (js_mul (js_sin (js_mul Math_PI (Fin (1 / 4)))) (js_add (Fin R) (Fin 2)))"
  let ?approach = "Vector3 (js_mul (js_cos (js_mul Math_PI (Fin (1 / 4)))) (js_add (Fin R) (Fin 800)))
                          (Fin 200)
                          (js_mul (js_sin (js_mul Math_PI (Fin (1 / 4)))) (js_add (Fin R) (Fin 800)))"
  have alt_surface: "getAltitude (scene_planet s) ?surface = Fin 2"
    using ring_altitude [OF assms(1,2), of 2 0] assms(3) by simp
  have alt_approach: "getAltitude (scene_planet s) ?approach = Fin (sqrt ((R + 800)\<^sup>2 + 200\<^sup>2) - R)"
    using ring_altitude [OF assms(1,2), of 800 200] by simp
  have "sqrt ((R + 800)\<^sup>2) < sqrt ((R + 800)\<^sup>2 + 200\<^sup>2)"
    by (rule real_sqrt_less_mono) simp
  then have safe: "800 < sqrt ((R + 800)\<^sup>2 + 200\<^sup>2) - R" using assms(3) by simp
  have sv: "?surface = of_rvec (cos (pi / 4) * (R + 2), 0, sin (pi / 4) * (R + 2))"
    by (simp add: of_rvec_def Math_PI_def)
  have up: "normalize (subVectors ?surface (position (scene_planet s)))
              = of_rvec (cos (pi / 4), 0, sin (pi / 4))"
    unfolding sv using assms(3) by (intro surface_up [OF assms(1)]) simp
  have earth: "name (scene_planet s) = ''Earth'' \<Longrightarrow>
      transferRocketFromSolarSystem src s = transferRocketFromSolarSystem_surfaceOnly src s"
    by (simp add: transferRocketFromSolarSystem_def transferRocketFromSolarSystem_surfaceOnly_def
        Let_def)
  have so: "fuel (scene_rocket (transferRocketFromSolarSystem_surfaceOnly src s)) = fuel src \<and>
         velocity (scene_rocket (transferRocketFromSolarSystem_surfaceOnly src s))
           = Vector3 (Fin 0) (Fin 0) (Fin 0) \<and>
         scene_gameState (transferRocketFromSolarSystem_surfaceOnly src s) = SLanded \<and>
         landingGearDeployed (scene_rocket (transferRocketFromSolarSystem_surfaceOnly src s)) \<and>
         orientation (scene_rocket (transferRocketFromSolarSystem_surfaceOnly src s))
           = SurfaceUp (of_rvec (cos (pi / 4), 0, sin (pi / 4))) \<and>
         getAltitude (scene_planet s)
           (position (scene_rocket (transferRocketFromSolarSystem_surfaceOnly src s))) = Fin 2"
    unfolding transferRocketFromSolarSystem_surfaceOnly_def Let_def assms(2)
      orientRocketOnSurface_def deployLandingGear_def
    using alt_surface up by simp
  have ap: "name (scene_planet s) \<noteq> ''Earth'' \<Longrightarrow>
         fuel (scene_rocket (transferRocketFromSolarSystem src s)) = fuel src \<and>
         velocity (scene_rocket (transferRocketFromSolarSystem src s))
           = Vector3 (Fin 0) (Fin 0) (Fin 0) \<and>
         scene_gameState (transferRocketFromSolarSystem src s) = SApproaching \<and>
         orientation (scene_rocket (transferRocketFromSolarSystem src s))
           = LookAt (position (scene_planet s)) \<and>
         getAltitude (scene_planet s)
           (position (scene_rocket (transferRocketFromSolarSystem src s)))
           = Fin (sqrt ((R + 800)\<^sup>2 + 200\<^sup>2) - R)"
    unfolding transferRocketFromSolarSystem_def Let_def assms(2) lookAt_def
    using alt_approach by simp
  show ?thesis
  proof (cases "name (scene_planet s) = ''Earth''")
    case True
    show ?thesis using so True by (simp only: earth [OF True]) simp
  next
    case False
    show ?thesis using so ap [OF False] safe False by simp
  qed
qed

theorem transfer_pose_witness:
  "fuel (scene_rocket (transferRocketFromSolarSystem ((example_rocket (7, 8, 9))\<lparr>fuel := Fin 42\<rparr>)
           (example_scene 800 ''Earth'' (0, 0, 0)))) = Fin 42 \<and>
   scene_gameState (transferRocketFromSolarSystem ((example_rocket (7, 8, 9))\<lparr>fuel := Fin 42\<rparr>)
           (example_scene 800 ''Earth'' (0, 0, 0))) = SLanded \<and>
   scene_gameState (transferRocketFromSolarSystem ((example_rocket (7, 8, 9))\<lparr>fuel := Fin 42\<rparr>)
           (example_scene 800 ''Mars'' (0, 0, 0))) = SApproaching \<and>
   getAltitude (example_planet 800 ''Earth'')
     (position (scene_rocket (transferRocketFromSolarSystem_surfaceOnly
        ((example_rocket (7, 8, 9))\<lparr>fuel := Fin 42\<rparr>) (example_scene 800 ''Earth'' (0, 0, 0)))))
     = Fin 2"
  using transfer_pose [of "example_scene 800 ''Earth'' (0, 0, 0)" 800
      "(example_rocket (7, 8, 9))\<lparr>fuel := Fin 42\<rparr>"]
    transfer_pose [of "example_scene 800 ''Mars'' (0, 0, 0)" 800
      "(example_rocket (7, 8, 9))\<lparr>fuel := Fin 42\<rparr>"]
  by (simp add: example_scene_def example_planet_def example_rocket_def)

text \<open>
  C9 as stated fails in \<^verbatim>\<open>src/scenes/PlanetScene.js\<close>: with Mars as the destination the
  rocket is put on the surface with the gear deployed and the state landed, not in an
  approach pose.
\<close>

theorem transfer_surfaceOnly_counterexample:
  "name (scene_planet (example_scene 800 ''Mars'' (0, 0, 0))) \<noteq> ''Earth'' \<and>
   scene_gameState (transferRocketFromSolarSystem_surfaceOnly (example_rocket (7, 8, 9))
      (example_scene 800 ''Mars'' (0, 0, 0))) = SLanded \<and>
   landingGearDeployed (scene_rocket (transferRocketFromSolarSystem_surfaceOnly (example_rocket (7, 8, 9))
      (example_scene 800 ''Mars'' (0, 0, 0))))"
  by (simp add: transferRocketFromSolarSystem_surfaceOnly_def example_scene_def example_planet_def
      example_rocket_def orientRocketOnSurface_def deployLandingGear_def Let_def)

end
